theory Spec2Isabelle
  imports Complex_Main
begin

section \<open>CalorieWise: the calculator of \<^verbatim>\<open>backend/calculator.py\<close>\<close>

text \<open>
  The calculator is a stateless class of pure methods. Each method is a HOL function of
  the same name, with the parameters in the order of the source.

  Numbers. Python's \<^verbatim>\<open>int\<close> is \<^typ>\<open>int\<close>. Python's \<^verbatim>\<open>float\<close> is
  \<^typ>\<open>rat\<close>: every finite double is a rational number, and the arithmetic of the
  model is the exact arithmetic on these values, without the rounding of the result to
  the nearest double, without overflow to infinity and without NaN. A decimal
  literal such as \<^verbatim>\<open>6.25\<close> or \<^verbatim>\<open>0.30\<close> denotes the decimal fraction itself.
  True division by zero raises \<^verbatim>\<open>ZeroDivisionError\<close> in Python; it is a branch of the
  model.

  Errors. A method that can raise returns \<open>py_error + 'a\<close>, with \<open>Inl\<close> the exception.
\<close>

subsection \<open>Python primitives\<close>

datatype py_error = ZeroDivisionError | KeyError string

text \<open>
  \<^verbatim>\<open>round(x)\<close> on a float returns the nearest \<^verbatim>\<open>int\<close>; a tie goes to the even
  neighbour.
\<close>

definition py_round :: "rat \<Rightarrow> int" where
  "py_round x =
     (let f = \<lfloor>x\<rfloor>; d = x - of_int f
      in if d < 1 / 2 then f
         else if 1 / 2 < d then f + 1
         else if even f then f else f + 1)"

text \<open>\<^verbatim>\<open>round(x, ndigits)\<close> keeps \<^verbatim>\<open>ndigits\<close> decimals, ties to even as well.\<close>

definition py_round_nd :: "rat \<Rightarrow> nat \<Rightarrow> rat" where
  "py_round_nd x ndigits = of_int (py_round (x * 10 ^ ndigits)) / 10 ^ ndigits"

text \<open>
  \<^verbatim>\<open>str.lower()\<close>: the ASCII capitals \<^verbatim>\<open>A\<close> to \<^verbatim>\<open>Z\<close> (codes 65 to 90) move to the small
  letters, every other byte stays. (No character outside ASCII has a lower case among
  the letters of \<^verbatim>\<open>male\<close>, so the comparison of the source is decided by the ASCII part.)
\<close>

definition lower_char :: "char \<Rightarrow> char" where
  "lower_char c =
     (if 65 \<le> (of_char c :: nat) \<and> (of_char c :: nat) \<le> 90
      then char_of ((of_char c :: nat) + 32) else c)"

definition str_lower :: "string \<Rightarrow> string" where
  "str_lower s = map lower_char s"

text \<open>\<^verbatim>\<open>d.get(key, default)\<close> on a dictionary.\<close>

definition dict_get :: "('k \<rightharpoonup> 'v) \<Rightarrow> 'k \<Rightarrow> 'v \<Rightarrow> 'v" where
  "dict_get d key dflt = (case d key of None \<Rightarrow> dflt | Some v \<Rightarrow> v)"

text \<open>\<^verbatim>\<open>d[key]\<close> raises \<^verbatim>\<open>KeyError(key)\<close> when the key is absent.\<close>

definition dict_item :: "(string \<rightharpoonup> 'v) \<Rightarrow> string \<Rightarrow> py_error + 'v" where
  "dict_item d key = (case d key of None \<Rightarrow> Inl (KeyError key) | Some v \<Rightarrow> Inr v)"

text \<open>A parameter with a default value: \<open>None\<close> is the call that omits it.\<close>

definition or_default :: "'a option \<Rightarrow> 'a \<Rightarrow> 'a" where
  "or_default arg dflt = (case arg of None \<Rightarrow> dflt | Some v \<Rightarrow> v)"

subsection \<open>The tables of \<^verbatim>\<open>CalorieCalculator.__init__\<close>\<close>

definition activity_multipliers :: "string \<rightharpoonup> rat" where
  "activity_multipliers =
     map_of [(''sedentary'', 1.2),
             (''light'', 1.375),
             (''moderate'', 1.55),
             (''active'', 1.725),
             (''extra_active'', 1.9)]"

definition goal_adjustments :: "string \<rightharpoonup> int" where
  "goal_adjustments =
     map_of [(''lose_fast'', - 1000),
             (''lose'', - 500),
             (''maintain'', 0),
             (''gain'', 500),
             (''gain_fast'', 1000)]"

subsection \<open>Unit conversion\<close>

definition convert_weight :: "rat \<Rightarrow> string \<Rightarrow> rat" where
  "convert_weight weight from_unit =
     (if from_unit = ''lbs'' then weight * 0.453592 else weight)"

text \<open>\<^verbatim>\<open>feet\<close> and \<^verbatim>\<open>inches\<close> default to 0.\<close>

definition convert_height :: "rat \<Rightarrow> string \<Rightarrow> int option \<Rightarrow> int option \<Rightarrow> rat" where
  "convert_height height from_unit feet_arg inches_arg =
     (let feet = or_default feet_arg 0; inches = or_default inches_arg 0
      in if from_unit = ''ft'' then (of_int feet * 30.48) + (of_int inches * 2.54)
         else height)"

subsection \<open>Energy expenditure\<close>

definition calculate_bmr_mifflin :: "rat \<Rightarrow> rat \<Rightarrow> int \<Rightarrow> string \<Rightarrow> rat" where
  "calculate_bmr_mifflin weight_kg height_cm age gender =
     (if str_lower gender = ''male''
      then (10 * weight_kg) + (6.25 * height_cm) - (5 * of_int age) + 5
      else (10 * weight_kg) + (6.25 * height_cm) - (5 * of_int age) - 161)"

definition calculate_tdee :: "rat \<Rightarrow> string \<Rightarrow> rat" where
  "calculate_tdee bmr activity_level =
     (let multiplier = dict_get activity_multipliers activity_level 1.2
      in bmr * multiplier)"

subsection \<open>Body mass index\<close>

text \<open>The division raises \<^verbatim>\<open>ZeroDivisionError\<close> when \<^verbatim>\<open>height_m ** 2\<close> is zero.\<close>

definition calculate_bmi :: "rat \<Rightarrow> rat \<Rightarrow> py_error + rat" where
  "calculate_bmi weight_kg height_cm =
     (let height_m = height_cm / 100
      in if height_m ^ 2 = 0 then Inl ZeroDivisionError
         else Inr (weight_kg / (height_m ^ 2)))"

definition get_bmi_category :: "rat \<Rightarrow> string" where
  "get_bmi_category bmi =
     (if bmi < 18.5 then ''Underweight''
      else if bmi < 25 then ''Normal''
      else if bmi < 30 then ''Overweight''
      else ''Obese'')"

subsection \<open>Macronutrients\<close>

record macro =
  grams :: int
  percent :: int

record macros =
  protein :: macro
  carbs :: macro
  fats :: macro

text \<open>
  \<^verbatim>\<open>ratios\<close> is \<^verbatim>\<open>Optional[Dict[str, float]]\<close>. The dictionary display of the source
  reads \<^verbatim>\<open>ratios['protein']\<close>, \<^verbatim>\<open>ratios['carbs']\<close>, \<^verbatim>\<open>ratios['fats']\<close> in this order,
  so the first missing key is the one of the \<^verbatim>\<open>KeyError\<close>.
\<close>

definition default_ratios :: "string \<rightharpoonup> rat" where
  "default_ratios = map_of [(''protein'', 0.30), (''carbs'', 0.40), (''fats'', 0.30)]"

definition calculate_macros :: "int \<Rightarrow> (string \<rightharpoonup> rat) option \<Rightarrow> py_error + macros" where
  "calculate_macros calories ratios_arg =
     (let ratios = (case ratios_arg of None \<Rightarrow> default_ratios | Some r \<Rightarrow> r)
      in case dict_item ratios ''protein'' of Inl e \<Rightarrow> Inl e | Inr p \<Rightarrow>
         (case dict_item ratios ''carbs'' of Inl e \<Rightarrow> Inl e | Inr c \<Rightarrow>
         (case dict_item ratios ''fats'' of Inl e \<Rightarrow> Inl e | Inr f \<Rightarrow>
            Inr \<lparr> protein = \<lparr> grams = py_round ((of_int calories * p) / 4),
                               percent = py_round (p * 100) \<rparr>,
                  carbs = \<lparr> grams = py_round ((of_int calories * c) / 4),
                             percent = py_round (c * 100) \<rparr>,
                  fats = \<lparr> grams = py_round ((of_int calories * f) / 9),
                            percent = py_round (f * 100) \<rparr> \<rparr>)))"

subsection \<open>Meal plan\<close>

text \<open>
  The returned dictionary is an association list in the insertion order of the source.
  \<^verbatim>\<open>meals\<close> defaults to 4.
\<close>

definition generate_meal_plan :: "int \<Rightarrow> int option \<Rightarrow> (string \<times> int) list" where
  "generate_meal_plan calories meals_arg =
     (let meals = or_default meals_arg 4
      in if meals = 3 then
           [(''breakfast'', py_round (of_int calories * 0.30)),
            (''lunch'', py_round (of_int calories * 0.40)),
            (''dinner'', py_round (of_int calories * 0.30))]
         else if meals = 5 then
           [(''breakfast'', py_round (of_int calories * 0.25)),
            (''snack1'', py_round (of_int calories * 0.10)),
            (''lunch'', py_round (of_int calories * 0.30)),
            (''snack2'', py_round (of_int calories * 0.10)),
            (''dinner'', py_round (of_int calories * 0.25))]
         else
           [(''breakfast'', py_round (of_int calories * 0.25)),
            (''lunch'', py_round (of_int calories * 0.35)),
            (''dinner'', py_round (of_int calories * 0.30)),
            (''snacks'', py_round (of_int calories * 0.10))])"


subsection \<open>Weekly projection\<close>

definition calculate_weekly_change :: "int \<Rightarrow> rat" where
  "calculate_weekly_change daily_deficit_surplus =
     of_int (daily_deficit_surplus * 7) / 7700"

subsection \<open>\<^verbatim>\<open>calculate_all\<close>\<close>

text \<open>The dictionary that \<^verbatim>\<open>calculate_all\<close> returns, one field for each key.\<close>

record nutrition =
  res_bmr :: int
  res_tdee :: int
  res_daily_calories :: int
  res_bmi :: rat
  res_bmi_category :: string
  res_macros :: macros
  res_meal_plan :: "(string \<times> int) list"
  res_weekly_deficit_surplus :: int
  res_projected_weekly_change_kg :: rat
  res_weight_kg :: rat
  res_height_cm :: rat

text \<open>
  The height is converted by \<^verbatim>\<open>self.convert_height(height, height_unit)\<close>: the call
  passes neither \<^verbatim>\<open>feet\<close> nor \<^verbatim>\<open>inches\<close>. The statements run in the order of the source;
  the first exception ends the call.
\<close>

definition calculate_all ::
  "int \<Rightarrow> string \<Rightarrow> rat \<Rightarrow> rat \<Rightarrow> string \<Rightarrow> string \<Rightarrow> string \<Rightarrow> string
     \<Rightarrow> py_error + nutrition" where
  "calculate_all age gender weight height activity_level goal weight_unit height_unit =
     (let weight_kg = convert_weight weight weight_unit;
          height_cm = convert_height height height_unit None None;
          bmr = calculate_bmr_mifflin weight_kg height_cm age gender;
          tdee = calculate_tdee bmr activity_level
      in case calculate_bmi weight_kg height_cm of Inl e \<Rightarrow> Inl e | Inr bmi \<Rightarrow>
         (let bmi_category = get_bmi_category bmi;
              goal_adjustment = dict_get goal_adjustments goal 0;
              daily_calories = py_round (tdee + of_int goal_adjustment)
          in case calculate_macros daily_calories None of Inl e \<Rightarrow> Inl e | Inr macros \<Rightarrow>
             (let meal_plan = generate_meal_plan daily_calories None;
                  weekly_change = calculate_weekly_change goal_adjustment
              in Inr \<lparr> res_bmr = py_round bmr,
                       res_tdee = py_round tdee,
                       res_daily_calories = daily_calories,
                       res_bmi = py_round_nd bmi 1,
                       res_bmi_category = bmi_category,
                       res_macros = macros,
                       res_meal_plan = meal_plan,
                       res_weekly_deficit_surplus = goal_adjustment,
                       res_projected_weekly_change_kg = py_round_nd weekly_change 2,
                       res_weight_kg = py_round_nd weight_kg 1,
                       res_height_cm = py_round_nd height_cm 1 \<rparr>)))"

subsection \<open>The handler \<^verbatim>\<open>calculate\<close> of \<^verbatim>\<open>backend/app.py\<close>\<close>






subsection \<open>The goal adjustment as the specification lists it\<close>


section \<open>Properties\<close>

subsection \<open>Evaluation helpers\<close>

lemma str_lower_male: "str_lower ''male'' = ''male''"
  by code_simp

lemma str_lower_female: "str_lower ''female'' \<noteq> ''male''"
  by code_simp

lemma convert_height_ft_default: "convert_height h ''ft'' None None = 0"
  by (simp add: convert_height_def or_default_def)

lemma calculate_bmi_zero: "calculate_bmi w 0 = Inl ZeroDivisionError"
  by (simp add: calculate_bmi_def)


lemma calculate_all_ft: "calculate_all a g w h act gl wu ''ft'' = Inl ZeroDivisionError"
  by (simp add: calculate_all_def convert_height_ft_default calculate_bmi_zero)


subsection \<open>Basal metabolic rate\<close>

text \<open>
  C2 (as amended). For every weight in kg, height in cm, age and gender,
  \<^verbatim>\<open>calculate_bmr_mifflin\<close> returns \<open>10*weight + 6.25*height - 5*age + 5\<close> when the
  gender, lower-cased, is \<^verbatim>\<open>male\<close>, and \<open>10*weight + 6.25*height - 5*age - 161\<close> for
  any other gender. For male, weight 70, height 175, age 25 the result is 1673.75.
  The result is not clamped: for female, weight 1, height 1, age 100 it is negative.
\<close>

theorem calculate_bmr_mifflin_formula:
  "calculate_bmr_mifflin w h a g =
     (if str_lower g = ''male''
      then 10 * w + 6.25 * h - 5 * of_int a + 5
      else 10 * w + 6.25 * h - 5 * of_int a - 161)
   \<and> calculate_bmr_mifflin 70 175 25 ''male'' = 1673.75
   \<and> calculate_bmr_mifflin 1 1 100 ''female'' < 0"
  by (simp add: calculate_bmr_mifflin_def str_lower_male str_lower_female)

text \<open>
  C2 as stated gives 1073.75 for male, weight 70, height 175, age 25. The formula of the
  claim itself gives \<open>700 + 1093.75 - 125 + 5 = 1673.75\<close>, and so does the code.
\<close>

theorem calculate_bmr_mifflin_not_1073:
  "calculate_bmr_mifflin 70 175 25 ''male'' \<noteq> 1073.75"
  by (simp add: calculate_bmr_mifflin_def str_lower_male)

subsection \<open>Total daily energy expenditure\<close>

text \<open>
  C9. \<^verbatim>\<open>calculate_tdee\<close> returns the BMR times the multiplier of the activity level
  (sedentary 1.2, light 1.375, moderate 1.55, active 1.725, extra_active 1.9); for any
  other activity-level string it returns the BMR times 1.2 and does not fail. In
  particular \<^verbatim>\<open>calculate_tdee(1073.75, 'sedentary')\<close> is 1288.5.
\<close>

theorem calculate_tdee_multiplier:
  "calculate_tdee b ''sedentary'' = b * 1.2
   \<and> calculate_tdee b ''light'' = b * 1.375
   \<and> calculate_tdee b ''moderate'' = b * 1.55
   \<and> calculate_tdee b ''active'' = b * 1.725
   \<and> calculate_tdee b ''extra_active'' = b * 1.9
   \<and> (a \<notin> {''sedentary'', ''light'', ''moderate'', ''active'', ''extra_active''}
        \<longrightarrow> calculate_tdee b a = b * 1.2)
   \<and> calculate_tdee 1073.75 ''sedentary'' = 1288.5"
  by (simp add: calculate_tdee_def dict_get_def activity_multipliers_def)

theorem calculate_tdee_multiplier_witness:
  "''couch'' \<notin> {''sedentary'', ''light'', ''moderate'', ''active'', ''extra_active''}
   \<and> calculate_tdee 100 ''couch'' = 120"
  using calculate_tdee_multiplier [of 100 "''couch''"] by simp

subsection \<open>Body mass index\<close>



text \<open>
  C5. \<^verbatim>\<open>get_bmi_category\<close> returns Underweight iff \<open>bmi < 18.5\<close>, Normal iff
  \<open>18.5 \<le> bmi < 25\<close>, Overweight iff \<open>25 \<le> bmi < 30\<close> and Obese iff \<open>30 \<le> bmi\<close>;
  exactly 18.5 is Normal, exactly 25.0 is Overweight, exactly 30.0 is Obese.
\<close>

theorem get_bmi_category_thresholds:
  "(get_bmi_category b = ''Underweight'' \<longleftrightarrow> b < 18.5)
   \<and> (get_bmi_category b = ''Normal'' \<longleftrightarrow> 18.5 \<le> b \<and> b < 25)
   \<and> (get_bmi_category b = ''Overweight'' \<longleftrightarrow> 25 \<le> b \<and> b < 30)
   \<and> (get_bmi_category b = ''Obese'' \<longleftrightarrow> 30 \<le> b)
   \<and> get_bmi_category 18.5 = ''Normal''
   \<and> get_bmi_category 25.0 = ''Overweight''
   \<and> get_bmi_category 30.0 = ''Obese''"
  by (auto simp add: get_bmi_category_def)

subsection \<open>Height in feet\<close>

text \<open>
  C4. For every input of \<^verbatim>\<open>calculate_all\<close> with \<^verbatim>\<open>height_unit\<close> equal to \<^verbatim>\<open>ft\<close>,
  the height is converted without feet and inches, so the normalized height is 0 cm
  whatever the height value, the BMI computation raises \<^verbatim>\<open>ZeroDivisionError\<close>, and
  the call returns no result.
\<close>

theorem calculate_all_ft_always_fails:
  "convert_height h ''ft'' None None = 0
   \<and> calculate_bmi (convert_weight w wu) (convert_height h ''ft'' None None)
       = Inl ZeroDivisionError
   \<and> calculate_all a g w h act gl wu ''ft'' = Inl ZeroDivisionError"
  by (simp add: convert_height_ft_default calculate_bmi_zero calculate_all_ft)

text \<open>
  C10 (as amended). \<^verbatim>\<open>convert_height\<close> returns \<open>feet*30.48 + inches*2.54\<close> when the
  unit is \<^verbatim>\<open>ft\<close>, whatever the height value, with feet and inches 0 where the caller
  does not supply them (so the result is 0 when neither is supplied), and returns the
  height value unchanged for every other unit.
\<close>

theorem convert_height_cases:
  "convert_height h ''ft'' (Some f) (Some i) = of_int f * 30.48 + of_int i * 2.54
   \<and> convert_height h ''ft'' fo io
       = of_int (or_default fo 0) * 30.48 + of_int (or_default io 0) * 2.54
   \<and> convert_height h ''ft'' None None = 0
   \<and> (u \<noteq> ''ft'' \<longrightarrow> convert_height h u fo io = h)"
  by (simp add: convert_height_def or_default_def)

theorem convert_height_cases_witness:
  "''cm'' \<noteq> ''ft'' \<and> convert_height 175 ''cm'' None None = 175
   \<and> convert_height 175 ''ft'' (Some 5) (Some 9) = 175.26"
  using convert_height_cases [of 175 5 9 None None "''cm''"] by simp

text \<open>
  C10 as stated has the feet/inches branch reachable only when the caller supplies feet
  and inches. A call with unit \<^verbatim>\<open>ft\<close> and neither of them takes that branch: the
  result is \<open>0*30.48 + 0*2.54\<close>, not the height 175 that was passed.
\<close>

theorem convert_height_ft_branch_without_fields:
  "convert_height 175 ''ft'' None None = 0 * 30.48 + 0 * 2.54
   \<and> convert_height 175 ''ft'' None None \<noteq> 175"
  by (simp add: convert_height_def or_default_def)

subsection \<open>Rounding\<close>













subsection \<open>Meal plan\<close>














subsection \<open>Macronutrients\<close>







subsection \<open>\<^verbatim>\<open>calculate_all\<close>\<close>







end
